theory Spec2Isabelle
  imports Main "HOL-Library.Word"
begin

section \<open>JavaScript values\<close>

text \<open>
  A JavaScript string is a sequence of UTF-16 code units. The literals of
  \<^verbatim>\<open>backend/index.js\<close> that are not ASCII are written out by their code units.
\<close>

type_synonym jsstring = "16 word list"

definition ascii :: "string \<Rightarrow> jsstring" where
  "ascii s = map (\<lambda>c. word_of_nat (of_char c)) s"

text \<open>
  The values that travel through the request handler: what \<^verbatim>\<open>express.json()\<close> parses
  and what the chain returns. Numbers are restricted to integers (rendered in decimal);
  an object is its list of own properties.
\<close>

datatype jsval =
    JUndefined
  | JNull
  | JBool bool
  | JNum int
  | JStr jsstring
  | JArr "jsval list"
  | JObj "(jsstring \<times> jsval) list"

datatype error = TypeError | ServiceError jsstring

fun intercalate :: "'a list \<Rightarrow> 'a list list \<Rightarrow> 'a list" where
  "intercalate sep [] = []"
| "intercalate sep [x] = x"
| "intercalate sep (x # y # ys) = x @ sep @ intercalate sep (y # ys)"

fun digits :: "nat \<Rightarrow> jsstring" where
  "digits n =
     (if n < 10 then [word_of_nat (48 + n)]
      else digits (n div 10) @ [word_of_nat (48 + n mod 10)])"

declare digits.simps [simp del]

text \<open>
  The conversion to a string applied by template literals and by
  \<^verbatim>\<open>Array.prototype.join\<close>; inside an array, \<^verbatim>\<open>undefined\<close> and \<^verbatim>\<open>null\<close> print as
  nothing.
\<close>

fun ToString :: "jsval \<Rightarrow> jsstring" where
  "ToString JUndefined = ascii ''undefined''"
| "ToString JNull = ascii ''null''"
| "ToString (JBool b) = (if b then ascii ''true'' else ascii ''false'')"
| "ToString (JNum n) = (if n < 0 then ascii ''-'' @ digits (nat (- n)) else digits (nat n))"
| "ToString (JStr s) = s"
| "ToString (JArr xs) =
     intercalate (ascii '','')
       (map (\<lambda>x. if x = JUndefined \<or> x = JNull then [] else ToString x) xs)"
| "ToString (JObj kvs) = ascii ''[object Object]''"

definition join :: "jsstring \<Rightarrow> jsval list \<Rightarrow> jsstring" where
  "join sep xs =
     intercalate sep (map (\<lambda>x. if x = JUndefined \<or> x = JNull then [] else ToString x) xs)"

fun ToBoolean :: "jsval \<Rightarrow> bool" where
  "ToBoolean JUndefined = False"
| "ToBoolean JNull = False"
| "ToBoolean (JBool b) = b"
| "ToBoolean (JNum n) = (n \<noteq> 0)"
| "ToBoolean (JStr s) = (s \<noteq> [])"
| "ToBoolean (JArr xs) = True"
| "ToBoolean (JObj kvs) = True"

fun isArray :: "jsval \<Rightarrow> bool" where
  "isArray (JArr xs) = True"
| "isArray _ = False"

text \<open>
  Property access \<^verbatim>\<open>v.k\<close>. It throws on \<^verbatim>\<open>undefined\<close> and \<^verbatim>\<open>null\<close>. The handler reads
  only the properties \<^verbatim>\<open>input\<close>, \<^verbatim>\<open>answer\<close>, \<^verbatim>\<open>response\<close> and \<^verbatim>\<open>text\<close>, none of which is
  a built-in property of a primitive or of an array, so these yield \<^verbatim>\<open>undefined\<close>.
\<close>

fun getField :: "jsval \<Rightarrow> jsstring \<Rightarrow> error + jsval" where
  "getField JUndefined k = Inl TypeError"
| "getField JNull k = Inl TypeError"
| "getField (JObj kvs) k = Inr (case map_of kvs k of Some x \<Rightarrow> x | None \<Rightarrow> JUndefined)"
| "getField v k = Inr JUndefined"

fun mapE :: "('a \<Rightarrow> error + 'b) \<Rightarrow> 'a list \<Rightarrow> error + 'b list" where
  "mapE f [] = Inr []"
| "mapE f (x # xs) =
     (case f x of
        Inl e \<Rightarrow> Inl e
      | Inr y \<Rightarrow> (case mapE f xs of Inl e \<Rightarrow> Inl e | Inr ys \<Rightarrow> Inr (y # ys)))"


section \<open>The history document\<close>

text \<open>
  A stored message: \<open>getType\<close> is what \<^verbatim>\<open>msg._getType()\<close> returns, \<open>None\<close> for a message
  without that method. The history object is used through \<^verbatim>\<open>getMessages()\<close> only, which
  fails or yields an array of messages or some other value.
\<close>

record message =
  getType :: "jsstring option"
  content :: jsval

datatype messages = NotAnArray | Messages "message list"

record chatHistory =
  getMessages :: "error + messages"

record document =
  pageContent :: jsstring
  metadata :: "(jsstring \<times> jsval) list"

text \<open>
  The four literals of \<^verbatim>\<open>createChatHistoryDocs\<close>: the labels of a user line, of an agent
  line and of a line of unknown role, each ending in a colon and a space, and the
  placeholder text for no history.
\<close>

definition userLabel :: jsstring where
  "userLabel = [0x7528, 0x6237, 0x3A, 0x20]"

definition agentLabel :: jsstring where
  "agentLabel = [0x667A, 0x80FD, 0x4F53, 0x3A, 0x20]"

definition unknownLabel :: jsstring where
  "unknownLabel = [0x672A, 0x77E5, 0x89D2, 0x8272, 0x3A, 0x20]"

definition noHistory :: jsstring where
  "noHistory = [0x65E0, 0x5386, 0x53F2, 0x5BF9, 0x8BDD]"

definition historyLine :: "message \<Rightarrow> jsstring" where
  "historyLine msg =
     (if getType msg = Some (ascii ''human'') then userLabel @ ToString (content msg)
      else if getType msg = Some (ascii ''ai'') then agentLabel @ ToString (content msg)
      else unknownLabel @ ToString (content msg))"

definition createChatHistoryDocs :: "chatHistory \<Rightarrow> error + document" where
  "createChatHistoryDocs upstashChatHistory =
     (case getMessages upstashChatHistory of
        Inl e \<Rightarrow> Inl e
      | Inr messages \<Rightarrow>
          Inr \<lparr>pageContent =
                 (case messages of
                    Messages ms \<Rightarrow> intercalate [0x0A] (map historyLine ms)
                  | NotAnArray \<Rightarrow> noHistory),
               metadata = [(ascii ''source'', JStr (ascii ''chat_history''))]\<rparr>)"


section \<open>Start-up\<close>

text \<open>
  The library calls of the start-up, as results fixed by the environment: the history
  object, the loading of \<^verbatim>\<open>context.json\<close>, the splitting of the documents for a chunk size
  and an overlap, and the embedding of the chunks into a vector store. The prompts and the
  model are constants and carry no behaviour here.
\<close>

record 'vs services =
  upstash :: chatHistory
  loadReference :: "error + document list"
  splitDocuments :: "nat \<Rightarrow> nat \<Rightarrow> document list \<Rightarrow> error + document list"
  fromDocuments :: "document list \<Rightarrow> error + 'vs"

record memory =
  memoryKey :: jsstring
  memoryHistory :: chatHistory
  inputKey :: jsstring
  outputKey :: jsstring

record 'vs retriever =
  store :: 'vs
  topK :: nat

record 'vs conversationChain =
  chainRetriever :: "'vs retriever"
  chainMemory :: memory

record 'vs app =
  appChain :: "'vs conversationChain"
  chatRoute :: bool
  listening :: bool

definition getChatHistory :: "'vs services \<Rightarrow> chatHistory" where
  "getChatHistory sv = upstash sv"

definition createMemory :: "chatHistory \<Rightarrow> memory" where
  "createMemory upstashChatHistory =
     \<lparr>memoryKey = ascii ''history'', memoryHistory = upstashChatHistory,
      inputKey = ascii ''input'', outputKey = ascii ''response''\<rparr>"

definition createReferenceDocs :: "'vs services \<Rightarrow> error + document list" where
  "createReferenceDocs sv = loadReference sv"

definition createVecorstore ::
  "'vs services \<Rightarrow> document list \<Rightarrow> document \<Rightarrow> error + 'vs" where
  "createVecorstore sv referenceDocs chatHistoryDoc =
     (case splitDocuments sv 100 10 (referenceDocs @ [chatHistoryDoc]) of
        Inl e \<Rightarrow> Inl e
      | Inr splitDocs \<Rightarrow> fromDocuments sv splitDocs)"

definition createRetriever :: "'vs \<Rightarrow> 'vs retriever" where
  "createRetriever vectorStore = \<lparr>store = vectorStore, topK = 2\<rparr>"

definition createChain :: "'vs retriever \<Rightarrow> memory \<Rightarrow> 'vs conversationChain" where
  "createChain historyAwareRetriever mem =
     \<lparr>chainRetriever = historyAwareRetriever, chainMemory = mem\<rparr>"

text \<open>
  The module body: every step is awaited in turn, so the first rejection ends the
  evaluation of the module before the route is registered and before \<^verbatim>\<open>app.listen\<close>.
\<close>

definition startup :: "'vs services \<Rightarrow> bool \<Rightarrow> error + 'vs app" where
  "startup sv production =
     (let upstashChatHistory = getChatHistory sv;
          mem = createMemory upstashChatHistory
      in case createReferenceDocs sv of
           Inl e \<Rightarrow> Inl e
         | Inr referenceDocs \<Rightarrow>
             (case createChatHistoryDocs upstashChatHistory of
                Inl e \<Rightarrow> Inl e
              | Inr chatHistoryDoc \<Rightarrow>
                  (case createVecorstore sv referenceDocs chatHistoryDoc of
                     Inl e \<Rightarrow> Inl e
                   | Inr vectorStore \<Rightarrow>
                       Inr \<lparr>appChain = createChain (createRetriever vectorStore) mem,
                            chatRoute = True,
                            listening = (\<not> production)\<rparr>)))"

definition serving :: "error + 'vs app \<Rightarrow> bool" where
  "serving st = (case st of Inl e \<Rightarrow> False | Inr a \<Rightarrow> chatRoute a)"


section \<open>The chat handler\<close>

record response =
  status :: nat
  payload :: jsval

definition fallbackMessage :: jsstring where
  "fallbackMessage =
     [0x51FA, 0x9519, 0x4E86, 0xFF0C, 0x8BF7, 0x7A0D, 0x540E, 0x518D, 0x8BD5, 0x3002]"

definition errorResponse :: response where
  "errorResponse = \<lparr>status = 500, payload = JObj [(ascii ''reply'', JStr fallbackMessage)]\<rparr>"

definition okResponse :: "jsval \<Rightarrow> response" where
  "okResponse c =
     \<lparr>status = 200,
      payload = JObj [(ascii ''choices'',
                  JArr [JObj [(ascii ''message'', JObj [(ascii ''content'', c)])]])]\<rparr>"

text \<open>\<^verbatim>\<open>c => c.text || ""\<close>\<close>

definition textOrEmpty :: "jsval \<Rightarrow> error + jsval" where
  "textOrEmpty c =
     (case getField c (ascii ''text'') of
        Inl e \<Rightarrow> Inl e
      | Inr t \<Rightarrow> Inr (if ToBoolean t then t else JStr []))"

definition replyContent :: "jsval \<Rightarrow> error + jsval" where
  "replyContent r =
     (if isArray r then
        (case r of
           JArr cs \<Rightarrow>
             (case mapE textOrEmpty cs of
                Inl e \<Rightarrow> Inl e
              | Inr ts \<Rightarrow> Inr (JStr (join [] ts)))
         | _ \<Rightarrow> Inr r)
      else Inr r)"

text \<open>
  The body of the \<^verbatim>\<open>try\<close> block. The chain built at start-up is a parameter: it maps the
  object it is invoked with and the state of the external services (the stored history
  among them) to its result and the new state.
\<close>

definition chatTry ::
  "(jsval \<Rightarrow> 's \<Rightarrow> (error + jsval) \<times> 's) \<Rightarrow> jsval \<Rightarrow> 's \<Rightarrow> (error + jsval) \<times> 's" where
  "chatTry invoke body s =
     (case getField body (ascii ''input'') of
        Inl e \<Rightarrow> (Inl e, s)
      | Inr userInput \<Rightarrow>
          (case invoke (JObj [(ascii ''input'', userInput)]) s of
             (Inl e, s') \<Rightarrow> (Inl e, s')
           | (Inr resp, s') \<Rightarrow>
               (case getField resp (ascii ''answer'') of
                  Inl e \<Rightarrow> (Inl e, s')
                | Inr answer \<Rightarrow>
                    (case getField answer (ascii ''response'') of
                       Inl e \<Rightarrow> (Inl e, s')
                     | Inr r \<Rightarrow> (replyContent r, s')))))"

definition chatHandler ::
  "(jsval \<Rightarrow> 's \<Rightarrow> (error + jsval) \<times> 's) \<Rightarrow> jsval \<Rightarrow> 's \<Rightarrow> response \<times> 's" where
  "chatHandler invoke body s =
     (case chatTry invoke body s of
        (Inl e, s') \<Rightarrow> (errorResponse, s')
      | (Inr c, s') \<Rightarrow> (okResponse c, s'))"

text \<open>
  The same chain with a record of the objects it is invoked with, to observe what the
  handler hands over.
\<close>

definition traced ::
  "(jsval \<Rightarrow> 's \<Rightarrow> (error + jsval) \<times> 's) \<Rightarrow>
     jsval \<Rightarrow> jsval list \<times> 's \<Rightarrow> (error + jsval) \<times> jsval list \<times> 's" where
  "traced invoke v ls =
     (case ls of (log, s) \<Rightarrow> (case invoke v s of (r, s') \<Rightarrow> (r, (log @ [v], s'))))"


section \<open>Reference notions for the stated properties\<close>

text \<open>A response body of the form \<^verbatim>\<open>{reply: string}\<close>.\<close>

fun replyShape :: "jsval \<Rightarrow> bool" where
  "replyShape (JObj [(key, JStr s)]) = (key = ascii ''reply'')"
| "replyShape _ = False"

text \<open>
  A content block of a model answer: an object whose \<^verbatim>\<open>text\<close> property is a string or is
  missing; \<open>blockText\<close> is its text, the empty string when there is none.
\<close>

fun textBlock :: "jsval \<Rightarrow> bool" where
  "textBlock (JObj kvs) =
     (case map_of kvs (ascii ''text'') of
        None \<Rightarrow> True
      | Some (JStr t) \<Rightarrow> True
      | Some _ \<Rightarrow> False)"
| "textBlock _ = False"

fun blockText :: "jsval \<Rightarrow> jsstring" where
  "blockText (JObj kvs) = (case map_of kvs (ascii ''text'') of Some (JStr t) \<Rightarrow> t | _ \<Rightarrow> [])"
| "blockText _ = []"


section \<open>The conversation chain and the index query\<close>

definition humanMessage :: "jsval \<Rightarrow> message" where
  "humanMessage v = \<lparr>getType = Some (ascii ''human''), content = v\<rparr>"

definition aiMessage :: "jsval \<Rightarrow> message" where
  "aiMessage v = \<lparr>getType = Some (ascii ''ai''), content = v\<rparr>"

text \<open>
  Modelled from the spec: the chain that \<^verbatim>\<open>createRetrievalChain\<close> builds over an
  \<^verbatim>\<open>LLMChain\<close> with memory is code of the langchain package and is not part of the sources.
  Sections 2 and 5 of the spec give its order: the history-aware retriever runs first on the
  current turn and the history, the response generator then consumes the chunks, the
  history and the turn, and the turn and the reply are appended to the history only after
  generation has succeeded. The result carries the reply where the handler reads it,
  under \<^verbatim>\<open>answer.response\<close>. The retriever and the completion service are parameters.
\<close>

definition conversationInvoke ::
  "(message list \<Rightarrow> jsval \<Rightarrow> error + document list) \<Rightarrow>
   (document list \<Rightarrow> message list \<Rightarrow> jsval \<Rightarrow> error + jsval) \<Rightarrow>
   jsval \<Rightarrow> message list \<Rightarrow> (error + jsval) \<times> message list" where
  "conversationInvoke retrieve generate arg history =
     (case getField arg (ascii ''input'') of
        Inl e \<Rightarrow> (Inl e, history)
      | Inr userInput \<Rightarrow>
          (case retrieve history userInput of
             Inl e \<Rightarrow> (Inl e, history)
           | Inr chunks \<Rightarrow>
               (case generate chunks history userInput of
                  Inl e \<Rightarrow> (Inl e, history)
                | Inr reply \<Rightarrow>
                    (Inr (JObj [(ascii ''input'', userInput),
                                (ascii ''answer'', JObj [(ascii ''response'', reply)])]),
                     history @ [humanMessage userInput, aiMessage reply]))))"

text \<open>
  Modelled from the spec: the similarity search of the in-memory vector store is code of the
  langchain package and is not part of the sources. Section 4.4 of the spec: a query returns
  (chunk, score) pairs, highest similarity first, at most as many as asked for. The
  similarity of a query and a chunk is a parameter.
\<close>

definition indexQuery ::
  "('q \<Rightarrow> 'c \<Rightarrow> 'a::linorder) \<Rightarrow> 'c list \<Rightarrow> 'q \<Rightarrow> nat \<Rightarrow> ('c \<times> 'a) list" where
  "indexQuery score chunks q n = take n (rev (sort_key snd (map (\<lambda>c. (c, score q c)) chunks)))"

text \<open>
  Modelled from the spec: the retriever object of the vector store is code of the langchain
  package as well. Section 4.6 of the spec: the retriever runs the query of section 4.4
  against its index for its fixed number of results, which \<open>createRetriever\<close> sets.
\<close>

definition retrieveScored ::
  "('q \<Rightarrow> 'c \<Rightarrow> 'a::linorder) \<Rightarrow> 'c list retriever \<Rightarrow> 'q \<Rightarrow> ('c \<times> 'a) list" where
  "retrieveScored score r q = indexQuery score (store r) q (topK r)"


section \<open>Sample environments\<close>

text \<open>A chain that settles with a fixed result and keeps no state.\<close>

definition constInvoke :: "error + jsval \<Rightarrow> jsval \<Rightarrow> unit \<Rightarrow> (error + jsval) \<times> unit" where
  "constInvoke r v s = (r, s)"

text \<open>A chain that echoes a string input as its answer and rejects any other input.\<close>

definition echoInvoke :: "jsval \<Rightarrow> unit \<Rightarrow> (error + jsval) \<times> unit" where
  "echoInvoke v s =
     (case getField v (ascii ''input'') of
        Inr (JStr t) \<Rightarrow>
          (Inr (JObj [(ascii ''answer'', JObj [(ascii ''response'', JStr t)])]), s)
      | _ \<Rightarrow> (Inl (ServiceError (ascii ''input'')), s))"

definition sampleAnswer :: jsval where
  "sampleAnswer =
     JObj [(ascii ''answer'', JObj [(ascii ''response'', JStr (ascii ''hi''))])]"

definition sampleBlocks :: "jsval list" where
  "sampleBlocks =
     [JObj [(ascii ''type'', JStr (ascii ''text'')), (ascii ''text'', JStr (ascii ''ab''))],
      JObj [(ascii ''type'', JStr (ascii ''image''))],
      JObj [(ascii ''text'', JStr (ascii ''c''))]]"

definition blocksAnswer :: jsval where
  "blocksAnswer = JObj [(ascii ''answer'', JObj [(ascii ''response'', JArr sampleBlocks)])]"

definition sampleBody :: jsval where
  "sampleBody = JObj [(ascii ''input'', JStr (ascii ''hello''))]"

definition sampleHistory :: "message list" where
  "sampleHistory = [humanMessage (JStr (ascii ''a'')), aiMessage (JStr (ascii ''b''))]"

definition sampleDoc :: document where
  "sampleDoc = \<lparr>pageContent = ascii ''hello'', metadata = [(ascii ''source'', JStr (ascii ''context.json''))]\<rparr>"

definition emptyHistory :: chatHistory where
  "emptyHistory = \<lparr>getMessages = Inr (Messages [])\<rparr>"

definition emptyHistoryDoc :: document where
  "emptyHistoryDoc =
     \<lparr>pageContent = [], metadata = [(ascii ''source'', JStr (ascii ''chat_history''))]\<rparr>"

definition embeddingDown :: "unit services" where
  "embeddingDown =
     \<lparr>upstash = emptyHistory,
      loadReference = Inr [sampleDoc],
      splitDocuments = (\<lambda>chunkSize chunkOverlap docs. Inr docs),
      fromDocuments = (\<lambda>docs. Inl (ServiceError (ascii ''embedding'')))\<rparr>"

definition retrieveNothing :: "message list \<Rightarrow> jsval \<Rightarrow> error + document list" where
  "retrieveNothing history q = Inr []"

definition generateDown :: "document list \<Rightarrow> message list \<Rightarrow> jsval \<Rightarrow> error + jsval" where
  "generateDown chunks history userInput = Inl (ServiceError (ascii ''completion''))"


section \<open>Auxiliary facts\<close>

lemma intercalate_Nil: "intercalate [] xs = concat xs"
  by (induction "[] :: 'a list" xs rule: intercalate.induct) simp_all

lemma textOrEmpty_block: "textBlock c \<Longrightarrow> textOrEmpty c = Inr (JStr (blockText c))"
  by (cases c) (auto simp: textOrEmpty_def split: option.splits jsval.splits)

lemma mapE_textOrEmpty:
  "\<forall>c\<in>set cs. textBlock c \<Longrightarrow> mapE textOrEmpty cs = Inr (map (\<lambda>c. JStr (blockText c)) cs)"
  by (induction cs) (simp_all add: textOrEmpty_block)

lemma join_strings: "join [] (map (\<lambda>c. JStr (f c)) cs) = concat (map f cs)"
  by (simp add: join_def intercalate_Nil comp_def)

lemma replyContent_blocks:
  "\<forall>c\<in>set cs. textBlock c \<Longrightarrow> replyContent (JArr cs) = Inr (JStr (concat (map blockText cs)))"
  by (simp add: replyContent_def mapE_textOrEmpty join_strings)

lemma replyContent_other: "\<not> isArray r \<Longrightarrow> replyContent r = Inr r"
  by (simp add: replyContent_def)


section \<open>Properties\<close>

subsection \<open>Shape of the response\<close>

text \<open>
  C1, as stated: every request that succeeds is answered with a body of the form
  \<^verbatim>\<open>{reply: string}\<close>. It fails: a request on which the chain answers \<^verbatim>\<open>"hi"\<close> succeeds
  with status 200, and its body is \<^verbatim>\<open>{choices: [{message: {content: "hi"}}]}\<close>.
\<close>

theorem chat_reply_shape_counterexample:
  "fst (chatTry (constInvoke (Inr sampleAnswer)) sampleBody ()) = Inr (JStr (ascii ''hi''))
   \<and> status (fst (chatHandler (constInvoke (Inr sampleAnswer)) sampleBody ())) = 200
   \<and> \<not> replyShape (payload (fst (chatHandler (constInvoke (Inr sampleAnswer)) sampleBody ())))"
  by (simp add: chatHandler_def chatTry_def constInvoke_def sampleAnswer_def sampleBody_def
      replyContent_def okResponse_def ascii_def)

text \<open>
  C1, amended: when the \<^verbatim>\<open>try\<close> block completes with the content \<open>c\<close>, the response has
  status 200 and the body \<^verbatim>\<open>{choices: [{message: {content: c}}]}\<close>; when it throws, the
  response has status 500 and the fixed body \<^verbatim>\<open>{reply: fallbackMessage}\<close>; and the fixed
  error response is returned only when the \<^verbatim>\<open>try\<close> block has thrown.
\<close>

theorem chat_response_shape:
  "(case chatTry invoke body s of
      (Inr c, s') \<Rightarrow> chatHandler invoke body s = (okResponse c, s')
    | (Inl e, s') \<Rightarrow> chatHandler invoke body s = (errorResponse, s'))
   \<and> (fst (chatHandler invoke body s) = errorResponse \<longleftrightarrow> isl (fst (chatTry invoke body s)))"
  by (auto simp: chatHandler_def errorResponse_def okResponse_def split: prod.splits sum.splits)

theorem chat_response_shape_witness:
  "chatHandler (constInvoke (Inr sampleAnswer)) sampleBody () = (okResponse (JStr (ascii ''hi'')), ())
   \<and> chatHandler (constInvoke (Inl TypeError)) sampleBody () = (errorResponse, ())"
  using chat_response_shape [of "constInvoke (Inr sampleAnswer)" sampleBody "()"]
    chat_response_shape [of "constInvoke (Inl TypeError)" sampleBody "()"]
  by (simp add: chatTry_def constInvoke_def sampleAnswer_def sampleBody_def replyContent_def
      ascii_def)

subsection \<open>The history document of an empty history\<close>

text \<open>
  C2: for the empty message sequence the history document should carry a non-empty
  placeholder. The code does not do so: an empty array is an array, so the lines of no
  messages are joined, and the content is the empty string; the placeholder is produced
  only for a value that is not an array.
\<close>

theorem empty_history_content:
  "createChatHistoryDocs \<lparr>getMessages = Inr (Messages [])\<rparr> =
     Inr \<lparr>pageContent = [], metadata = [(ascii ''source'', JStr (ascii ''chat_history''))]\<rparr>"
  by (simp add: createChatHistoryDocs_def)

subsection \<open>Failure of response generation\<close>

text \<open>
  C3: if the completion service raises an error during response generation, the caller
  receives the fixed fallback response and the conversation history is left as it was.
\<close>

theorem generation_error_keeps_history:
  assumes "getField body (ascii ''input'') = Inr userInput"
    and "retrieve history userInput = Inr chunks"
    and "generate chunks history userInput = Inl e"
  shows "chatHandler (conversationInvoke retrieve generate) body history = (errorResponse, history)"
  using assms by (simp add: chatHandler_def chatTry_def conversationInvoke_def)

theorem generation_error_keeps_history_witness:
  "getField sampleBody (ascii ''input'') = Inr (JStr (ascii ''hello''))
   \<and> retrieveNothing sampleHistory (JStr (ascii ''hello'')) = Inr []
   \<and> generateDown [] sampleHistory (JStr (ascii ''hello'')) = Inl (ServiceError (ascii ''completion''))
   \<and> chatHandler (conversationInvoke retrieveNothing generateDown) sampleBody sampleHistory
       = (errorResponse, sampleHistory)"
proof -
  have a: "getField sampleBody (ascii ''input'') = Inr (JStr (ascii ''hello''))"
    by (simp add: sampleBody_def)
  have b: "retrieveNothing sampleHistory (JStr (ascii ''hello'')) = Inr []"
    by (simp add: retrieveNothing_def)
  have c: "generateDown [] sampleHistory (JStr (ascii ''hello''))
             = Inl (ServiceError (ascii ''completion''))"
    by (simp add: generateDown_def)
  show ?thesis
    using a b c
      generation_error_keeps_history [where body = sampleBody
        and userInput = "JStr (ascii ''hello'')" and retrieve = retrieveNothing
        and history = sampleHistory and chunks = "[]" and generate = generateDown
        and e = "ServiceError (ascii ''completion'')"]
    by simp
qed

subsection \<open>Failure of the embedding service at start-up\<close>

text \<open>
  C5: if building the vector store fails at start-up (the embedding service fails on the
  split documents), the start-up ends with that error: no application results, so no chat
  route is registered and nothing listens.
\<close>

theorem startup_aborts:
  assumes "createReferenceDocs sv = Inr referenceDocs"
    and "createChatHistoryDocs (getChatHistory sv) = Inr chatHistoryDoc"
    and "splitDocuments sv 100 10 (referenceDocs @ [chatHistoryDoc]) = Inr splitDocs"
    and "fromDocuments sv splitDocs = Inl e"
  shows "startup sv production = Inl e \<and> \<not> serving (startup sv production)"
  using assms by (simp add: startup_def createVecorstore_def serving_def)

theorem startup_aborts_witness:
  "createReferenceDocs embeddingDown = Inr [sampleDoc]
   \<and> createChatHistoryDocs (getChatHistory embeddingDown) = Inr emptyHistoryDoc
   \<and> splitDocuments embeddingDown 100 10 ([sampleDoc] @ [emptyHistoryDoc])
       = Inr [sampleDoc, emptyHistoryDoc]
   \<and> fromDocuments embeddingDown [sampleDoc, emptyHistoryDoc]
       = Inl (ServiceError (ascii ''embedding''))
   \<and> startup embeddingDown False = Inl (ServiceError (ascii ''embedding''))
   \<and> \<not> serving (startup embeddingDown False)"
proof -
  have a: "createReferenceDocs embeddingDown = Inr [sampleDoc]"
    by (simp add: createReferenceDocs_def embeddingDown_def)
  have b: "createChatHistoryDocs (getChatHistory embeddingDown) = Inr emptyHistoryDoc"
    by (simp add: createChatHistoryDocs_def getChatHistory_def embeddingDown_def
        emptyHistory_def emptyHistoryDoc_def)
  have c: "splitDocuments embeddingDown 100 10 ([sampleDoc] @ [emptyHistoryDoc])
             = Inr [sampleDoc, emptyHistoryDoc]"
    and d: "fromDocuments embeddingDown [sampleDoc, emptyHistoryDoc]
             = Inl (ServiceError (ascii ''embedding''))"
    by (simp_all add: embeddingDown_def)
  show ?thesis using a b c d startup_aborts [OF a b c d, of False] by blast
qed

subsection \<open>Results of the retriever\<close>

text \<open>
  C7: for every query the retriever returns chunks of the index, in the order of
  non-increasing similarity score, and at most \<open>min 2 n\<close> of them for an index of \<open>n\<close>
  chunks, 2 being the number that \<open>createRetriever\<close> fixes.
\<close>

theorem retriever_sorted_bounded:
  "sorted (rev (map snd (retrieveScored score (createRetriever chunks) q)))
   \<and> length (retrieveScored score (createRetriever chunks) q) \<le> min 2 (length chunks)
   \<and> fst ` set (retrieveScored score (createRetriever chunks) q) \<subseteq> set chunks"
proof -
  let ?all = "rev (sort_key snd (map (\<lambda>c. (c, score q c)) chunks))"
  have r: "retrieveScored score (createRetriever chunks) q = take 2 ?all"
    by (simp add: retrieveScored_def createRetriever_def indexQuery_def)
  have "sorted (map snd (sort_key snd (map (\<lambda>c. (c, score q c)) chunks)))"
    by (rule sorted_sort_key)
  then have s: "sorted (rev (map snd ?all))"
    by (simp add: rev_map)
  have "rev (map snd (take 2 ?all)) = drop (length ?all - 2) (rev (map snd ?all))"
    by (simp add: rev_map rev_take take_map drop_map)
  then have 1: "sorted (rev (map snd (take 2 ?all)))"
    using s sorted_wrt_drop by metis
  have 2: "length (take 2 ?all) \<le> min 2 (length chunks)" by simp
  have "set (take 2 ?all) \<subseteq> set ?all" by (rule set_take_subset)
  then have 3: "fst ` set (take 2 ?all) \<subseteq> set chunks" by auto
  show ?thesis unfolding r using 1 2 3 by blast
qed

subsection \<open>Requests without a usable input\<close>

text \<open>
  C9: the handler validates nothing. For a body that is an object, the chain is invoked
  once, with the body's \<^verbatim>\<open>input\<close> property as it is (\<^verbatim>\<open>undefined\<close> when the body has
  none); the response is never a client error, its status being 200 or 500; and when the
  chain fails on that value, the response is the fixed fallback response.
\<close>

theorem chat_no_input_validation:
  assumes "chatHandler (traced invoke) (JObj kvs) (log, s) = (r, log', s')"
  shows "log' = log @ [JObj [(ascii ''input'',
                  case map_of kvs (ascii ''input'') of None \<Rightarrow> JUndefined | Some x \<Rightarrow> x)]]
     \<and> (status r = 200 \<or> status r = 500)
     \<and> (isl (fst (invoke (JObj [(ascii ''input'',
                  case map_of kvs (ascii ''input'') of None \<Rightarrow> JUndefined | Some x \<Rightarrow> x)]) s))
          \<longrightarrow> r = errorResponse)"
  using assms
  by (auto simp: chatHandler_def chatTry_def traced_def errorResponse_def okResponse_def
      split: prod.splits sum.splits option.splits)

theorem chat_no_input_validation_witness:
  "chatHandler (traced echoInvoke) (JObj [(ascii ''text'', JStr (ascii ''hello''))]) ([], ())
     = (errorResponse, [JObj [(ascii ''input'', JUndefined)]], ())
   \<and> [JObj [(ascii ''input'', JUndefined)]] = [] @ [JObj [(ascii ''input'', JUndefined)]]
   \<and> status errorResponse = 500
   \<and> isl (fst (echoInvoke (JObj [(ascii ''input'', JUndefined)]) ()))"
proof -
  have a: "chatHandler (traced echoInvoke) (JObj [(ascii ''text'', JStr (ascii ''hello''))]) ([], ())
     = (errorResponse, [JObj [(ascii ''input'', JUndefined)]], ())"
    by (simp add: chatHandler_def chatTry_def traced_def echoInvoke_def ascii_def)
  show ?thesis
    using a chat_no_input_validation [OF a]
    by (simp add: echoInvoke_def errorResponse_def)
qed

subsection \<open>Normalisation of the reply content\<close>

text \<open>
  C10: when the chain has answered, the content placed in the response is, for an answer
  that is an array of content blocks, the concatenation of the blocks' texts (the empty
  string for a block without text), and for an answer that is not an array, the answer
  itself.
\<close>

theorem reply_content_normalized:
  assumes "getField body (ascii ''input'') = Inr v"
    and "invoke (JObj [(ascii ''input'', v)]) s = (Inr resp, s')"
    and "getField resp (ascii ''answer'') = Inr answer"
    and "getField answer (ascii ''response'') = Inr r"
  shows "(\<forall>cs. r = JArr cs \<and> (\<forall>c\<in>set cs. textBlock c) \<longrightarrow>
            chatHandler invoke body s = (okResponse (JStr (concat (map blockText cs))), s'))
       \<and> (\<not> isArray r \<longrightarrow> chatHandler invoke body s = (okResponse r, s'))"
  using assms
  by (auto simp: chatHandler_def chatTry_def replyContent_blocks replyContent_other)

theorem reply_content_normalized_witness:
  "list_all textBlock sampleBlocks
   \<and> chatHandler (constInvoke (Inr blocksAnswer)) sampleBody () = (okResponse (JStr (ascii ''abc'')), ())
   \<and> \<not> isArray (JStr (ascii ''hi''))
   \<and> chatHandler (constInvoke (Inr sampleAnswer)) sampleBody () = (okResponse (JStr (ascii ''hi'')), ())"
proof -
  have a: "getField sampleBody (ascii ''input'') = Inr (JStr (ascii ''hello''))"
    by (simp add: sampleBody_def)
  have b: "constInvoke (Inr blocksAnswer) (JObj [(ascii ''input'', JStr (ascii ''hello''))]) ()
             = (Inr blocksAnswer, ())"
    and b': "constInvoke (Inr sampleAnswer) (JObj [(ascii ''input'', JStr (ascii ''hello''))]) ()
             = (Inr sampleAnswer, ())"
    by (simp_all add: constInvoke_def)
  have c: "getField blocksAnswer (ascii ''answer'')
             = Inr (JObj [(ascii ''response'', JArr sampleBlocks)])"
    and c': "getField sampleAnswer (ascii ''answer'')
             = Inr (JObj [(ascii ''response'', JStr (ascii ''hi''))])"
    by (simp_all add: blocksAnswer_def sampleAnswer_def)
  have d: "getField (JObj [(ascii ''response'', JArr sampleBlocks)]) (ascii ''response'')
             = Inr (JArr sampleBlocks)"
    and d': "getField (JObj [(ascii ''response'', JStr (ascii ''hi''))]) (ascii ''response'')
             = Inr (JStr (ascii ''hi''))"
    by simp_all
  have e: "\<forall>c\<in>set sampleBlocks. textBlock c"
    by (simp add: sampleBlocks_def ascii_def)
  have f: "concat (map blockText sampleBlocks) = ascii ''abc''"
    by (simp add: sampleBlocks_def ascii_def)
  have "chatHandler (constInvoke (Inr blocksAnswer)) sampleBody ()
          = (okResponse (JStr (concat (map blockText sampleBlocks))), ())"
    using e reply_content_normalized [where invoke = "constInvoke (Inr blocksAnswer)", OF a b c d]
    by blast
  moreover have "chatHandler (constInvoke (Inr sampleAnswer)) sampleBody ()
          = (okResponse (JStr (ascii ''hi'')), ())"
    using reply_content_normalized [where invoke = "constInvoke (Inr sampleAnswer)", OF a b' c' d']
    by simp
  ultimately show ?thesis using e f by (simp add: list_all_iff)
qed

end
